theory Spec2Isabelle
  imports Complex_Main "HOL-Library.Word"
begin

section \<open>JavaScript values used by the pricing and offer code\<close>

text \<open>
  The server computes with JavaScript numbers. A finite number is modelled by an exact
  rational and the one non-finite value that the code can reach by itself, the
  not-a-number value, by \<open>NaN\<close>. The rounding error of the binary double format and the two
  infinities are outside the model; on the integral prices of the price tables the
  products with 0.8 and 0.18 are far from a rounding boundary, so the exact value and the
  double agree after \<open>Math.round\<close>.
\<close>

datatype number = Num rat | NaN

fun js_times :: "number \<Rightarrow> number \<Rightarrow> number" where
  "js_times (Num a) (Num b) = Num (a * b)"
| "js_times _ _ = NaN"

text \<open>
  The code divides by the constant 100 only. A division by zero, which gives an infinity or
  \<open>NaN\<close> in JavaScript, is given the one non-finite value of the model.
\<close>

fun js_divide :: "number \<Rightarrow> number \<Rightarrow> number" where
  "js_divide (Num a) (Num b) = (if b = 0 then NaN else Num (a / b))"
| "js_divide _ _ = NaN"

fun js_plus :: "number \<Rightarrow> number \<Rightarrow> number" where
  "js_plus (Num a) (Num b) = Num (a + b)"
| "js_plus _ _ = NaN"

fun js_minus :: "number \<Rightarrow> number \<Rightarrow> number" where
  "js_minus (Num a) (Num b) = Num (a - b)"
| "js_minus _ _ = NaN"

text \<open>Every comparison with \<open>NaN\<close> is false.\<close>

fun js_less :: "number \<Rightarrow> number \<Rightarrow> bool" where
  "js_less (Num a) (Num b) = (a < b)"
| "js_less _ _ = False"

definition js_greater :: "number \<Rightarrow> number \<Rightarrow> bool" where
  "js_greater a b = js_less b a"

text \<open>
  \<open>Math.round\<close> rounds to the nearest integer, a tie towards plus infinity. This is the
  library's \<open>round\<close>, which is \<open>\<lfloor>x + 1 / 2\<rfloor>\<close> by definition.
\<close>

fun Math_round :: "number \<Rightarrow> number" where
  "Math_round (Num a) = Num (of_int (round a))"
| "Math_round NaN = NaN"

text \<open>
  A property read from an object literal is an own property, a member inherited from
  \<open>Object.prototype\<close>, or \<open>undefined\<close>. The inherited members are functions (and, for
  \<open>__proto__\<close>, the prototype object): they are neither nullish nor falsy, they convert to
  \<open>NaN\<close> under arithmetic and to a string under \<open>+\<close> (the source text of the function, or
  \<open>[object Object]\<close>).
\<close>

definition Object_prototype :: "string list" where
  "Object_prototype =
     [''constructor'', ''__defineGetter__'', ''__defineSetter__'', ''hasOwnProperty'',
      ''__lookupGetter__'', ''__lookupSetter__'', ''isPrototypeOf'',
      ''propertyIsEnumerable'', ''toString'', ''valueOf'', ''__proto__'',
      ''toLocaleString'']"

datatype jsbase = Number number | Inherited string

text \<open>
  The result of \<open>base + gst\<close>: a number when \<open>base\<close> is one, and otherwise the string made
  of the text of the inherited member, given by its name, followed by the text of the
  number. Such a string is no numeric literal: it converts to \<open>NaN\<close>.
\<close>

datatype jstotal = Amount number | Text string number

definition js_get :: "(string \<times> rat) list \<Rightarrow> string \<Rightarrow> jsbase option" where
  "js_get obj key =
     (case map_of obj key of
        Some v \<Rightarrow> Some (Number (Num v))
      | None \<Rightarrow> if key \<in> set Object_prototype then Some (Inherited key) else None)"

fun ToNumber :: "jsbase \<Rightarrow> number" where
  "ToNumber (Number n) = n"
| "ToNumber (Inherited _) = NaN"

fun ToNumber_total :: "jstotal \<Rightarrow> number" where
  "ToNumber_total (Amount n) = n"
| "ToNumber_total (Text _ _) = NaN"

fun truthy :: "jsbase \<Rightarrow> bool" where
  "truthy (Number (Num a)) = (a \<noteq> 0)"
| "truthy (Number NaN) = False"
| "truthy (Inherited _) = True"

fun js_add :: "jsbase \<Rightarrow> number \<Rightarrow> jstotal" where
  "js_add (Number a) b = Amount (js_plus a b)"
| "js_add (Inherited m) b = Text m b"

subsection \<open>Strings\<close>

text \<open>
  Strings are byte strings. \<open>toLowerCase\<close>, \<open>toUpperCase\<close> and \<open>trim\<close> act on the ASCII
  letters and the ASCII white space; every other byte is left as it is.
\<close>

definition lower_letters :: string where
  "lower_letters = ''abcdefghijklmnopqrstuvwxyz''"

definition upper_letters :: string where
  "upper_letters = ''ABCDEFGHIJKLMNOPQRSTUVWXYZ''"

definition toLowerCase_char :: "char \<Rightarrow> char" where
  "toLowerCase_char c =
     (case map_of (zip upper_letters lower_letters) c of Some l \<Rightarrow> l | None \<Rightarrow> c)"

definition toUpperCase_char :: "char \<Rightarrow> char" where
  "toUpperCase_char c =
     (case map_of (zip lower_letters upper_letters) c of Some u \<Rightarrow> u | None \<Rightarrow> c)"

definition toLowerCase :: "string \<Rightarrow> string" where
  "toLowerCase s = map toLowerCase_char s"

definition toUpperCase :: "string \<Rightarrow> string" where
  "toUpperCase s = map toUpperCase_char s"

definition white_space :: "char \<Rightarrow> bool" where
  "white_space c = (c \<in> set [CHR '' '', CHR 0x09, CHR 0x0A, CHR 0x0B, CHR 0x0C, CHR 0x0D])"

definition trim :: "string \<Rightarrow> string" where
  "trim s = rev (dropWhile white_space (rev (dropWhile white_space s)))"

section \<open>Pricing\<close>

record quote =
  base :: jsbase
  gst :: number
  total :: jstotal

definition ONE_TIME_PLAN_PRICES :: "(string \<times> rat) list" where
  "ONE_TIME_PLAN_PRICES =
     [(''PLAN_CALL'', 5000), (''PLAN_60'', 40000), (''PLAN_90'', 50000), (''PLAN_120'', 55000)]"

definition STARTER_PRO_PLAN_PRICES :: "(string \<times> rat) list" where
  "STARTER_PRO_PLAN_PRICES = [(''SP_STARTER'', 15000), (''SP_PRO'', 30000)]"

definition ENTERPRISE_BASE_PRICES :: "(string \<times> rat) list" where
  "ENTERPRISE_BASE_PRICES =
     [(''60'', 40000), (''90'', 50000), (''120'', 55000), (''consultation'', 5000)]"

text \<open>
  \<open>computeOneTimePrice(planId, customBasePrice)\<close>. The second argument is \<open>None\<close> when it
  is \<open>undefined\<close> (or any value whose \<open>typeof\<close> is not \<open>"number"\<close>).
\<close>

definition computeOneTimePrice :: "string \<Rightarrow> number option \<Rightarrow> quote" where
  "computeOneTimePrice planId customBasePrice =
     (let base0 = (case js_get ONE_TIME_PLAN_PRICES planId of
                     Some v \<Rightarrow> v
                   | None \<Rightarrow> Number (Num 0));
          b = (case customBasePrice of
                 Some c \<Rightarrow> if js_greater c (Num 0) then Number c else base0
               | None \<Rightarrow> base0);
          g = Math_round (js_times (ToNumber b) (Num (18 / 100)));
          t = js_add b g
      in \<lparr>base = b, gst = g, total = t\<rparr>)"

datatype error = Invalid_enterprise_package

text \<open>
  In \<open>billingType || "monthly"\<close> and \<open>country || ""\<close> an absent argument and the empty string
  behave alike, so both are modelled by the empty string. For the package
  \<open>consultation\<close> the code reads \<open>ENTERPRISE_BASE_PRICES.consultation\<close>, the property that
  \<open>baseMonthly\<close> already holds.
\<close>

definition isIndia :: "string \<Rightarrow> bool" where
  "isIndia country = (toLowerCase (trim country) = ''india'')"

definition computeEnterprisePrice :: "string \<Rightarrow> string \<Rightarrow> string \<Rightarrow> error + quote" where
  "computeEnterprisePrice pkg billingType country =
     (case js_get ENTERPRISE_BASE_PRICES pkg of
        None \<Rightarrow> Inl Invalid_enterprise_package
      | Some baseMonthly \<Rightarrow>
          if \<not> truthy baseMonthly then Inl Invalid_enterprise_package
          else
            let bt = toLowerCase (if billingType = [] then ''monthly'' else billingType);
                b = (if pkg = ''consultation'' then baseMonthly
                     else if bt = ''yearly'' then
                       (let yearlyBeforeDiscount = js_times (ToNumber baseMonthly) (Num 12)
                        in Number (Math_round (js_times yearlyBeforeDiscount (Num (8 / 10)))))
                     else baseMonthly);
                g = (if isIndia country
                     then Math_round (js_times (ToNumber b) (Num (18 / 100)))
                     else Num 0);
                t = js_add b g
            in Inr \<lparr>base = b, gst = g, total = t\<rparr>)"

text \<open>
  The pricing part of \<open>POST /api/create-starterpro-order\<close>: the plan id under which
  offers are looked up, and the quote, or the 400 response.
\<close>

datatype bad_request = Plan_is_required | Invalid_plan | PlanId_is_required

definition starterpro_order_pricing ::
  "string \<Rightarrow> string \<Rightarrow> string \<Rightarrow> bad_request + (string \<times> quote)" where
  "starterpro_order_pricing plan billingType country =
     (if plan = [] then Inl Plan_is_required
      else
        let planNormalized = (if plan = ''pro'' then ''pro'' else ''starter'');
            basePlanId = (if planNormalized = ''starter'' then ''SP_STARTER'' else ''SP_PRO'')
        in case js_get STARTER_PRO_PLAN_PRICES basePlanId of
             None \<Rightarrow> Inl Invalid_plan
           | Some base0 \<Rightarrow>
               if \<not> truthy base0 then Inl Invalid_plan
               else
                 let bt0 = toLowerCase (if billingType = [] then ''monthly'' else billingType);
                     bt = (if bt0 = ''subscription'' then ''monthly'' else bt0);
                     b = (if bt = ''yearly'' then
                            (let yearlyBeforeDiscount = js_times (ToNumber base0) (Num 12)
                             in Number (Math_round (js_times yearlyBeforeDiscount (Num (8 / 10)))))
                          else base0);
                     g = (if isIndia country
                          then Math_round (js_times (ToNumber b) (Num (18 / 100)))
                          else Num 0);
                     t = js_add b g
                 in Inr (basePlanId, \<lparr>base = b, gst = g, total = t\<rparr>))"

section \<open>Offers\<close>

text \<open>
  An offer as it is read from \<open>offers.json\<close>, with the fields of the current and of the
  legacy record shape. An absent string field is the empty string, an absent field of any
  other kind is \<open>None\<close>. A date is the time value in milliseconds that \<open>new Date\<close> gives
  for it; it is \<open>None\<close> when the field is absent or falsy, and also when the text does not
  parse (the comparison of the clock with an invalid date is false, so such a bound never
  rejects). \<open>amount\<close>, \<open>usageLimit\<close> and \<open>used\<close> hold the value of \<open>Number\<close> on the
  stored field. The \<open>active\<close> and \<open>enabled\<close> flags are booleans when present.
\<close>

record offer_validity =
  start_date :: "int option"
  end_date :: "int option"

record offer_appliesTo =
  plans :: "string list option"
  billingTypes :: "string list option"
  countries :: "string list option"

record offer =
  code :: string
  type :: string
  amount :: "number option"
  description :: string
  offer_notes :: string
  active :: "bool option"
  enabled :: "bool option"
  validity :: "offer_validity option"
  startAt :: "int option"
  endAt :: "int option"
  appliesTo :: "offer_appliesTo option"
  applicablePlans :: "string list option"
  legacy_billingTypes :: "string list option"
  legacy_countries :: "string list option"
  usageLimit :: "number option"
  used :: "number option"

definition array_or_empty :: "string list option \<Rightarrow> string list" where
  "array_or_empty a = (case a of Some xs \<Rightarrow> xs | None \<Rightarrow> [])"

text \<open>The body of the \<open>arr.map\<close> callback of \<open>loadOffers\<close>.\<close>

definition upgrade_offer :: "offer \<Rightarrow> offer" where
  "upgrade_offer o1 =
     (let o2 = (if active o1 = None
                then o1\<lparr>active := (case enabled o1 of Some e \<Rightarrow> Some e | None \<Rightarrow> Some True)\<rparr>
                else o1);
          o3 = (if validity o2 = None
                then o2\<lparr>validity := Some \<lparr>start_date = startAt o2, end_date = endAt o2\<rparr>\<rparr>
                else o2);
          o4 = (case appliesTo o3 of
                  None \<Rightarrow>
                    o3\<lparr>appliesTo := Some
                      \<lparr>plans = Some (array_or_empty (applicablePlans o3)),
                       billingTypes = Some (array_or_empty (legacy_billingTypes o3)),
                       countries = Some (array_or_empty (legacy_countries o3))\<rparr>\<rparr>
                | Some a \<Rightarrow>
                    o3\<lparr>appliesTo := Some
                      \<lparr>plans = Some (array_or_empty (plans a)),
                       billingTypes = Some (array_or_empty (billingTypes a)),
                       countries = Some (array_or_empty (countries a))\<rparr>\<rparr>);
          o5 = o4\<lparr>type := toUpperCase (type o4)\<rparr>;
          o6 = o5\<lparr>used := (case used o5 of
                               Some (Num u) \<Rightarrow> Some (Num u)
                             | _ \<Rightarrow> Some (Num 0))\<rparr>;
          o7 = (if description o6 = [] \<and> offer_notes o6 \<noteq> []
                then o6\<lparr>description := offer_notes o6\<rparr> else o6)
      in o7)"

text \<open>
  \<open>loadOffers()\<close>: the argument is the array parsed from the file, empty when the file is
  missing, blank, not an array or unreadable.
\<close>

definition loadOffers :: "offer list \<Rightarrow> offer list" where
  "loadOffers file = map upgrade_offer file"

definition isActive :: "offer \<Rightarrow> bool" where
  "isActive offer =
     (case active offer of
        Some a \<Rightarrow> a
      | None \<Rightarrow> (case enabled offer of Some e \<Rightarrow> e | None \<Rightarrow> True))"

definition window_start :: "offer \<Rightarrow> int option" where
  "window_start offer =
     (case validity offer of Some v \<Rightarrow> start_date v | None \<Rightarrow> startAt offer)"

definition window_end :: "offer \<Rightarrow> int option" where
  "window_end offer =
     (case validity offer of Some v \<Rightarrow> end_date v | None \<Rightarrow> endAt offer)"

definition offer_plans :: "offer \<Rightarrow> string list" where
  "offer_plans offer =
     (case appliesTo offer of
        Some a \<Rightarrow>
          (case plans a of
             Some ps \<Rightarrow> ps
           | None \<Rightarrow> array_or_empty (applicablePlans offer))
      | None \<Rightarrow> array_or_empty (applicablePlans offer))"

text \<open>
  \<open>validateOfferForPlan(planId, couponCode)\<close>, with the content of the offers file and the
  clock reading of \<open>new Date()\<close> as arguments. \<open>None\<close> is the result \<open>{ valid: false }\<close>.
\<close>

definition validateOfferForPlan ::
  "offer list \<Rightarrow> int \<Rightarrow> string \<Rightarrow> string \<Rightarrow> offer option" where
  "validateOfferForPlan file now planId couponCode =
     (if couponCode = [] then None
      else
        let offers = loadOffers file in
        if offers = [] then None
        else
          let c = toUpperCase (trim couponCode) in
          case find (\<lambda>x. toUpperCase (code x) = c) offers of
            None \<Rightarrow> None
          | Some offer \<Rightarrow>
              if \<not> isActive offer then None
              else if (case window_start offer of Some s \<Rightarrow> now < s | None \<Rightarrow> False) then None
              else if (case window_end offer of Some e \<Rightarrow> now > e | None \<Rightarrow> False) then None
              else if offer_plans offer \<noteq> [] \<and> planId \<notin> set (offer_plans offer) then None
              else Some offer)"

text \<open>
  \<open>applyOffer(totalAmount, offer)\<close>. The \<open>description\<close> string of the result, which prints
  the amount, is left out. \<open>offer_amount\<close> is \<open>Number(offer.amount || 0)\<close>.
\<close>

record discount_result =
  discount :: number
  final :: jstotal

fun offer_amount :: "number option \<Rightarrow> number" where
  "offer_amount (Some (Num a)) = Num a"
| "offer_amount _ = Num 0"

definition raw_discount :: "jstotal \<Rightarrow> offer \<Rightarrow> number" where
  "raw_discount totalAmount offer =
     (if type offer = ''PERCENT''
      then Math_round (js_divide (js_times (ToNumber_total totalAmount) (offer_amount (amount offer)))
                                 (Num 100))
      else if type offer = ''FIXED'' then Math_round (offer_amount (amount offer))
      else Num 0)"

definition applyOffer :: "jstotal \<Rightarrow> offer option \<Rightarrow> discount_result" where
  "applyOffer totalAmount offer_opt =
     (case offer_opt of
        None \<Rightarrow> \<lparr>discount = Num 0, final = totalAmount\<rparr>
      | Some offer \<Rightarrow>
          let d0 = raw_discount totalAmount offer;
              d1 = (if js_less d0 (Num 0) then Num 0 else d0);
              d2 = (if js_greater d1 (ToNumber_total totalAmount)
                    then ToNumber_total totalAmount else d1)
          in \<lparr>discount = d2, final = Amount (js_minus (ToNumber_total totalAmount) d2)\<rparr>)"

subsection \<open>Notions used to state the properties of offer resolution\<close>

text \<open>
  The checks that \<open>validateOfferForPlan\<close> makes on the offer it has found: the active
  flag, the two bounds of the validity window and the plan list.
\<close>

definition passes_gates :: "int \<Rightarrow> string \<Rightarrow> offer \<Rightarrow> bool" where
  "passes_gates now pid offer \<longleftrightarrow>
     isActive offer \<and>
     (case window_start offer of Some s \<Rightarrow> s \<le> now | None \<Rightarrow> True) \<and>
     (case window_end offer of Some e \<Rightarrow> now \<le> e | None \<Rightarrow> True) \<and>
     (offer_plans offer = [] \<or> pid \<in> set (offer_plans offer))"

text \<open>
  An offer with its country and billing-type lists blanked, in the current and in the
  legacy shape. Two offers differ at most in these lists when their images are equal.
\<close>

definition without_countries_and_billingTypes :: "offer \<Rightarrow> offer" where
  "without_countries_and_billingTypes x =
     x\<lparr>appliesTo := map_option (\<lambda>a. a\<lparr>billingTypes := None, countries := None\<rparr>) (appliesTo x),
       legacy_billingTypes := None, legacy_countries := None\<rparr>"

subsection \<open>The public offer check\<close>

text \<open>
  \<open>POST /api/validate-offer\<close>. \<open>basePrice\<close> is the number in the request body, \<open>None\<close>
  when the field is absent; a falsy number (zero or \<open>NaN\<close>) gives no override. The reply
  carries the quote, and, when an offer applies, the offer whose code, type and amount are
  reported, with the discount; \<open>final_reported\<close> is the \<open>final\<close> field of the reply.
\<close>

record validate_offer_reply = quote +
  planId :: string
  offerApplied :: bool
  offer_reported :: "offer option"
  discount_reported :: "number option"
  final_reported :: jstotal

definition validate_offer ::
  "offer list \<Rightarrow> int \<Rightarrow> string \<Rightarrow> number option \<Rightarrow> string \<Rightarrow> bad_request + validate_offer_reply"
  where
  "validate_offer file now pid basePrice couponCode =
     (if pid = [] then Inl PlanId_is_required
      else
        let customBasePrice = (case basePrice of
                                 Some (Num n) \<Rightarrow> if n \<noteq> 0 then Some (Num n) else None
                               | _ \<Rightarrow> None);
            q = computeOneTimePrice pid customBasePrice
        in case validateOfferForPlan file now pid couponCode of
             None \<Rightarrow>
               Inr \<lparr>base = base q, gst = gst q, total = total q, planId = pid,
                    offerApplied = False, offer_reported = None, discount_reported = None,
                    final_reported = total q\<rparr>
           | Some offer \<Rightarrow>
               let r = applyOffer (total q) (Some offer)
               in Inr \<lparr>base = base q, gst = gst q, total = total q, planId = pid,
                       offerApplied = True, offer_reported = Some offer,
                       discount_reported = Some (discount r), final_reported = final r\<rparr>)"

section \<open>The signed thank-you contract\<close>

subsection \<open>Signature\<close>

type_synonym byte = "8 word"

text \<open>\<open>buffer.toString("base64")\<close>: three bytes give four characters, the rest is padded.\<close>

definition base64_alphabet :: string where
  "base64_alphabet = ''ABCDEFGHIJKLMNOPQRSTUVWXYZabcdefghijklmnopqrstuvwxyz0123456789+/''"

definition base64_char :: "nat \<Rightarrow> char" where
  "base64_char n = base64_alphabet ! n"



definition strip_trailing_equals :: "string \<Rightarrow> string" where
  "strip_trailing_equals s = rev (dropWhile (\<lambda>x. x = CHR ''='') (rev s))"






subsection \<open>Contract store\<close>








subsection \<open>Retrieval\<close>





subsection \<open>Reference data of the end-to-end scenarios\<close>

text \<open>
  The coupon of the specification's scenario B: code SAVE10, a fixed amount of 1000,
  active, restricted to the plan \<open>ENT_90\<close>, as \<open>POST /api/admin/offers\<close> stores it.
\<close>

definition SAVE10 :: offer where
  "SAVE10 =
     \<lparr>code = ''SAVE10'', type = ''FIXED'', amount = Some (Num 1000), description = [],
      offer_notes = [], active = Some True, enabled = None,
      validity = Some \<lparr>start_date = None, end_date = None\<rparr>, startAt = None, endAt = None,
      appliesTo = Some \<lparr>plans = Some [''ENT_90''], billingTypes = Some [''monthly'', ''yearly''],
                         countries = Some []\<rparr>,
      applicablePlans = None, legacy_billingTypes = None, legacy_countries = None,
      usageLimit = None, used = Some (Num 0)\<rparr>"

section \<open>Verified properties\<close>

subsection \<open>Applying an offer\<close>




subsection \<open>Quotes of the enterprise and starter/pro plans\<close>

lemmas string_defs = toLowerCase_def toUpperCase_def trim_def white_space_def
  toLowerCase_char_def toUpperCase_char_def upper_letters_def lower_letters_def

lemma toLowerCase_Nil_iff [simp]: "toLowerCase s = [] \<longleftrightarrow> s = []"
  by (simp add: toLowerCase_def)

lemma toLowerCase_Nil [simp]: "toLowerCase [] = []"
  by (simp add: toLowerCase_def)

lemma toLowerCase_monthly: "toLowerCase ''monthly'' = ''monthly''"
  by (simp add: string_defs)

lemma billing_yearly_iff:
  "toLowerCase (if bt = [] then ''monthly'' else bt) = ''yearly'' \<longleftrightarrow> toLowerCase bt = ''yearly''"
  by (cases "bt = []") (simp_all add: toLowerCase_monthly)

lemma starterpro_yearly_iff:
  "(if toLowerCase (if bt = [] then ''monthly'' else bt) = ''subscription'' then ''monthly''
    else toLowerCase (if bt = [] then ''monthly'' else bt)) = ''yearly''
   \<longleftrightarrow> toLowerCase bt = ''yearly''"
  by (cases "bt = []") (auto simp: toLowerCase_monthly)

lemma enterprise_packages:
  "pkg \<in> {''60'', ''90'', ''120'', ''consultation''} \<Longrightarrow>
   \<exists>m. map_of ENTERPRISE_BASE_PRICES pkg = Some m \<and> 0 < m \<and> m \<in> \<int> \<and>
       js_get ENTERPRISE_BASE_PRICES pkg = Some (Number (Num m))"
  by (auto simp: js_get_def ENTERPRISE_BASE_PRICES_def)

lemma enterprise_base:
  assumes "js_get ENTERPRISE_BASE_PRICES pkg = Some (Number (Num m))" "m \<noteq> 0" "pkg \<noteq> ''consultation''"
  shows "\<exists>q. computeEnterprisePrice pkg bt country = Inr q \<and>
     base q = Number (Num (if toLowerCase bt = ''yearly'' then of_int (round (8 / 10 * (12 * m))) else m))"
  using assms
  by (simp add: computeEnterprisePrice_def Let_def billing_yearly_iff mult.commute)

text \<open>
  Claim C2. For the enterprise packages 60, 90 and 120 and for both starter/pro tiers, a
  yearly billing cadence (the billing type is compared in lower case) charges
  \<open>round (0.8 * 12 * m)\<close> for the monthly base \<open>m\<close> of the price table, and every other
  cadence charges \<open>m\<close> itself. Package 90, yearly, for a buyer in India costs 480000 plus
  86400 tax, 566400 in total.
\<close>

theorem yearly_base:
  "(pkg \<in> {''60'', ''90'', ''120''} \<longrightarrow>
      (\<exists>m q. map_of ENTERPRISE_BASE_PRICES pkg = Some m \<and>
         computeEnterprisePrice pkg bt country = Inr q \<and>
         base q = Number (Num (if toLowerCase bt = ''yearly''
                               then of_int (round (8 / 10 * (12 * m))) else m)))) \<and>
   (plan \<noteq> [] \<longrightarrow>
      (\<exists>m q. map_of STARTER_PRO_PLAN_PRICES (if plan = ''pro'' then ''SP_PRO'' else ''SP_STARTER'') = Some m \<and>
         starterpro_order_pricing plan bt country =
           Inr (if plan = ''pro'' then ''SP_PRO'' else ''SP_STARTER'', q) \<and>
         base q = Number (Num (if toLowerCase bt = ''yearly''
                               then of_int (round (8 / 10 * (12 * m))) else m)))) \<and>
   computeEnterprisePrice ''90'' ''yearly'' ''India'' =
     Inr \<lparr>base = Number (Num 480000), gst = Num 86400, total = Amount (Num 566400)\<rparr>"
proof (intro conjI impI)
  assume p: "pkg \<in> {''60'', ''90'', ''120''}"
  then obtain m where m: "map_of ENTERPRISE_BASE_PRICES pkg = Some m" "0 < m"
     "js_get ENTERPRISE_BASE_PRICES pkg = Some (Number (Num m))"
    using enterprise_packages [of pkg] by auto
  from p have "pkg \<noteq> ''consultation''" by auto
  with m enterprise_base [of pkg m bt country]
  show "\<exists>m q. map_of ENTERPRISE_BASE_PRICES pkg = Some m \<and>
         computeEnterprisePrice pkg bt country = Inr q \<and>
         base q = Number (Num (if toLowerCase bt = ''yearly''
                               then of_int (round (8 / 10 * (12 * m))) else m))"
    by auto
next
  assume "plan \<noteq> []"
  then show "\<exists>m q. map_of STARTER_PRO_PLAN_PRICES (if plan = ''pro'' then ''SP_PRO'' else ''SP_STARTER'') = Some m \<and>
         starterpro_order_pricing plan bt country =
           Inr (if plan = ''pro'' then ''SP_PRO'' else ''SP_STARTER'', q) \<and>
         base q = Number (Num (if toLowerCase bt = ''yearly''
                               then of_int (round (8 / 10 * (12 * m))) else m))"
    by (simp add: starterpro_order_pricing_def STARTER_PRO_PLAN_PRICES_def js_get_def Let_def
        starterpro_yearly_iff)
next
  show "computeEnterprisePrice ''90'' ''yearly'' ''India'' =
     Inr \<lparr>base = Number (Num 480000), gst = Num 86400, total = Amount (Num 566400)\<rparr>"
    by (simp add: computeEnterprisePrice_def js_get_def ENTERPRISE_BASE_PRICES_def isIndia_def
        string_defs)
qed

text \<open>Package 60 and the pro tier, billed yearly: 384000 and 288000.\<close>

theorem yearly_base_witness:
  "(\<exists>q. computeEnterprisePrice ''60'' ''Yearly'' ''France'' = Inr q \<and> base q = Number (Num 384000)) \<and>
   (\<exists>q. starterpro_order_pricing ''pro'' ''Yearly'' ''France'' = Inr (''SP_PRO'', q) \<and>
        base q = Number (Num 288000))"
  using yearly_base [of "''60''" "''Yearly''" "''France''" "''pro''"]
  by (auto simp: ENTERPRISE_BASE_PRICES_def STARTER_PRO_PLAN_PRICES_def string_defs)







subsection \<open>Quotes of the one-time plans\<close>



text \<open>
  A plan id that is neither in the price table nor the name of a member inherited from
  \<open>Object.prototype\<close> is quoted at zero, unless a positive override is given.
\<close>

lemma computeOneTimePrice_unknown_plan:
  assumes "map_of ONE_TIME_PLAN_PRICES pid = None" "pid \<notin> set Object_prototype"
    and "\<forall>c. cbp = Some (Num c) \<longrightarrow> c \<le> 0"
  shows "computeOneTimePrice pid cbp = \<lparr>base = Number (Num 0), gst = Num 0, total = Amount (Num 0)\<rparr>"
proof -
  have b: "(case cbp of Some c \<Rightarrow> if js_greater c (Num 0) then Number c else Number (Num 0)
            | None \<Rightarrow> Number (Num 0)) = Number (Num 0)"
  proof (cases cbp)
    case None
    then show ?thesis by simp
  next
    case (Some n)
    with assms(3) show ?thesis by (cases n) (auto simp: js_greater_def)
  qed
  show ?thesis using assms(1,2) b
    by (simp add: computeOneTimePrice_def Let_def js_get_def)
qed

text \<open>
  Claim C10 says that every plan id outside the price table is quoted at zero. The plan id
  \<open>constructor\<close> is not in the table, but the lookup \<open>ONE_TIME_PLAN_PRICES[planId]\<close> finds
  the member that every object inherits, which is not nullish, so \<open>?? 0\<close> does not replace
  it: the base is that function, the tax is \<open>NaN\<close> and the total a string. The public
  offer check replies with this quote and with the same string as the final amount.
\<close>

theorem unknown_plan_inherited_name:
  "map_of ONE_TIME_PLAN_PRICES ''constructor'' = None \<and>
   computeOneTimePrice ''constructor'' None =
     \<lparr>base = Inherited ''constructor'', gst = NaN, total = Text ''constructor'' NaN\<rparr> \<and>
   validate_offer [] now ''constructor'' None [] =
     Inr \<lparr>base = Inherited ''constructor'', gst = NaN, total = Text ''constructor'' NaN,
          planId = ''constructor'', offerApplied = False, offer_reported = None,
          discount_reported = None, final_reported = Text ''constructor'' NaN\<rparr>"
  by (simp add: validate_offer_def validateOfferForPlan_def computeOneTimePrice_def js_get_def
      ONE_TIME_PLAN_PRICES_def Object_prototype_def)

subsection \<open>Offer resolution\<close>

lemma code_upgrade_offer [simp]: "code (upgrade_offer x) = code x"
  by (simp add: upgrade_offer_def Let_def split: option.splits)

lemma validateOfferForPlan_alt:
  "validateOfferForPlan file now pid c =
     (if c = [] then None
      else case find (\<lambda>x. toUpperCase (code x) = toUpperCase (trim c)) (loadOffers file) of
             None \<Rightarrow> None
           | Some offer \<Rightarrow> if passes_gates now pid offer then Some offer else None)"
  by (auto simp: validateOfferForPlan_def passes_gates_def Let_def not_less
      split: option.splits)


lemma upgrade_offer_fields:
  "upgrade_offer x =
     \<lparr>code = code x, type = toUpperCase (type x), amount = amount x,
      description = (if description x = [] \<and> offer_notes x \<noteq> [] then offer_notes x else description x),
      offer_notes = offer_notes x,
      active = (case active x of Some a \<Rightarrow> Some a
                | None \<Rightarrow> (case enabled x of Some e \<Rightarrow> Some e | None \<Rightarrow> Some True)),
      enabled = enabled x,
      validity = (case validity x of Some v \<Rightarrow> Some v
                  | None \<Rightarrow> Some \<lparr>start_date = startAt x, end_date = endAt x\<rparr>),
      startAt = startAt x, endAt = endAt x,
      appliesTo = (case appliesTo x of
                     None \<Rightarrow> Some \<lparr>plans = Some (array_or_empty (applicablePlans x)),
                                   billingTypes = Some (array_or_empty (legacy_billingTypes x)),
                                   countries = Some (array_or_empty (legacy_countries x))\<rparr>
                   | Some a \<Rightarrow> Some \<lparr>plans = Some (array_or_empty (plans a)),
                                     billingTypes = Some (array_or_empty (billingTypes a)),
                                     countries = Some (array_or_empty (countries a))\<rparr>),
      applicablePlans = applicablePlans x,
      legacy_billingTypes = legacy_billingTypes x, legacy_countries = legacy_countries x,
      usageLimit = usageLimit x,
      used = (case used x of Some (Num u) \<Rightarrow> Some (Num u) | _ \<Rightarrow> Some (Num 0))\<rparr>"
  by (cases x) (simp add: upgrade_offer_def Let_def split: option.splits)


lemma code_without [simp]: "code (without_countries_and_billingTypes x) = code x"
  by (simp add: without_countries_and_billingTypes_def)

lemma isActive_without [simp]: "isActive (without_countries_and_billingTypes x) = isActive x"
  by (simp add: without_countries_and_billingTypes_def isActive_def split: option.splits)

lemma window_start_without [simp]:
  "window_start (without_countries_and_billingTypes x) = window_start x"
  by (simp add: without_countries_and_billingTypes_def window_start_def split: option.splits)

lemma window_end_without [simp]:
  "window_end (without_countries_and_billingTypes x) = window_end x"
  by (simp add: without_countries_and_billingTypes_def window_end_def split: option.splits)

lemma offer_plans_without [simp]:
  "offer_plans (without_countries_and_billingTypes x) = offer_plans x"
  by (cases "appliesTo x")
     (simp_all add: without_countries_and_billingTypes_def offer_plans_def split: option.splits)

lemma passes_gates_without [simp]:
  "passes_gates now pid (without_countries_and_billingTypes x) = passes_gates now pid x"
  by (simp add: passes_gates_def)

lemma without_upgrade:
  "without_countries_and_billingTypes (upgrade_offer (without_countries_and_billingTypes x)) =
   without_countries_and_billingTypes (upgrade_offer x)"
  by (cases "appliesTo x")
     (simp_all add: upgrade_offer_fields without_countries_and_billingTypes_def
       cong: option.case_cong)

lemma find_map_without:
  "find P (map without_countries_and_billingTypes xs) =
   map_option without_countries_and_billingTypes
     (find (\<lambda>x. P (without_countries_and_billingTypes x)) xs)"
  by (induction xs) simp_all

lemma loadOffers_without:
  assumes "map without_countries_and_billingTypes file1 = map without_countries_and_billingTypes file2"
  shows "map without_countries_and_billingTypes (loadOffers file1) =
         map without_countries_and_billingTypes (loadOffers file2)"
proof -
  have h: "map without_countries_and_billingTypes (loadOffers f) =
        map (\<lambda>x. without_countries_and_billingTypes (upgrade_offer x))
          (map without_countries_and_billingTypes f)" for f
    by (simp add: loadOffers_def without_upgrade)
  show ?thesis by (simp only: h assms)
qed

lemma validate_without:
  "map_option without_countries_and_billingTypes (validateOfferForPlan file now pid c) =
     (if c = [] then None
      else case find (\<lambda>x. toUpperCase (code x) = toUpperCase (trim c))
                  (map without_countries_and_billingTypes (loadOffers file)) of
             None \<Rightarrow> None
           | Some offer \<Rightarrow> if passes_gates now pid offer then Some offer else None)"
  by (simp add: validateOfferForPlan_alt find_map_without split: option.splits)

lemma applyOffer_without:
  "applyOffer t (map_option without_countries_and_billingTypes r) = applyOffer t r"
  by (cases r) (simp_all add: applyOffer_def raw_discount_def without_countries_and_billingTypes_def)

lemma validate_SAVE10: "validateOfferForPlan [SAVE10] 0 ''ENT_90'' ''SAVE10'' = Some SAVE10"
  by (simp add: validateOfferForPlan_alt loadOffers_def SAVE10_def upgrade_offer_def
      passes_gates_def isActive_def window_start_def window_end_def offer_plans_def
      array_or_empty_def string_defs)

text \<open>
  Scenario B of the specification: package 90, yearly, India, with the coupon SAVE10. The
  total is 566400, the discount 1000 and the final amount 565400.
\<close>

lemma scenario_B:
  "computeEnterprisePrice ''90'' ''yearly'' ''India'' =
     Inr \<lparr>base = Number (Num 480000), gst = Num 86400, total = Amount (Num 566400)\<rparr> \<and>
   applyOffer (Amount (Num 566400)) (validateOfferForPlan [SAVE10] 0 ''ENT_90'' ''SAVE10'') =
     \<lparr>discount = Num 1000, final = Amount (Num 565400)\<rparr>"
proof -
  have "computeEnterprisePrice ''90'' ''yearly'' ''India'' =
     Inr \<lparr>base = Number (Num 480000), gst = Num 86400, total = Amount (Num 566400)\<rparr>"
    by (simp add: computeEnterprisePrice_def js_get_def ENTERPRISE_BASE_PRICES_def isIndia_def
        string_defs)
  moreover have "applyOffer (Amount (Num 566400)) (Some SAVE10) =
     \<lparr>discount = Num 1000, final = Amount (Num 565400)\<rparr>"
    by (simp add: applyOffer_def raw_discount_def SAVE10_def js_greater_def)
  ultimately show ?thesis by (simp only: validate_SAVE10 simp_thms)
qed




text \<open>
  Claim C7. Two offer files that differ only in the country and billing-type lists of their
  offers give the same resolution for every clock, plan id and coupon: either both find
  no match, or both find the offer at the same place, equal up to these lists; the
  discount that \<open>applyOffer\<close> computes from the result is the same.
\<close>

theorem countries_and_billingTypes_not_enforced:
  assumes "map without_countries_and_billingTypes file1 = map without_countries_and_billingTypes file2"
  shows "map_option without_countries_and_billingTypes (validateOfferForPlan file1 now pid c) =
         map_option without_countries_and_billingTypes (validateOfferForPlan file2 now pid c) \<and>
         (validateOfferForPlan file1 now pid c = None \<longleftrightarrow> validateOfferForPlan file2 now pid c = None) \<and>
         applyOffer t (validateOfferForPlan file1 now pid c) =
         applyOffer t (validateOfferForPlan file2 now pid c)"
proof -
  have e: "map_option without_countries_and_billingTypes (validateOfferForPlan file1 now pid c) =
         map_option without_countries_and_billingTypes (validateOfferForPlan file2 now pid c)"
    using loadOffers_without [OF assms] by (simp only: validate_without)
  then have "validateOfferForPlan file1 now pid c = None \<longleftrightarrow> validateOfferForPlan file2 now pid c = None"
    by (metis option.map_disc_iff)
  moreover have "applyOffer t (validateOfferForPlan file1 now pid c) =
         applyOffer t (validateOfferForPlan file2 now pid c)"
    using e by (metis applyOffer_without)
  ultimately show ?thesis using e by simp
qed

text \<open>SAVE10 restricted to one-time billing and to Germany resolves as SAVE10 does.\<close>

theorem countries_and_billingTypes_not_enforced_witness:
  "map_option without_countries_and_billingTypes
     (validateOfferForPlan
        [SAVE10\<lparr>appliesTo := Some \<lparr>plans = Some [''ENT_90''], billingTypes = Some [''one_time''],
                                    countries = Some [''Germany'']\<rparr>\<rparr>] 0 ''ENT_90'' ''SAVE10'') =
   Some (without_countries_and_billingTypes SAVE10)"
proof -
  have "map without_countries_and_billingTypes
          [SAVE10\<lparr>appliesTo := Some \<lparr>plans = Some [''ENT_90''], billingTypes = Some [''one_time''],
                                    countries = Some [''Germany'']\<rparr>\<rparr>] =
        map without_countries_and_billingTypes [SAVE10]"
    by (simp add: without_countries_and_billingTypes_def SAVE10_def)
  from countries_and_billingTypes_not_enforced [OF this, of 0 "''ENT_90''" "''SAVE10''" "Amount (Num 0)"]
  have "map_option without_countries_and_billingTypes
     (validateOfferForPlan
        [SAVE10\<lparr>appliesTo := Some \<lparr>plans = Some [''ENT_90''], billingTypes = Some [''one_time''],
                                    countries = Some [''Germany'']\<rparr>\<rparr>] 0 ''ENT_90'' ''SAVE10'') =
   map_option without_countries_and_billingTypes
     (validateOfferForPlan [SAVE10] 0 ''ENT_90'' ''SAVE10'')"
    by (rule conjunct1)
  then show ?thesis by (simp only: validate_SAVE10 option.map)
qed



subsection \<open>The thank-you signature\<close>

text \<open>The base64 text determines the bytes: six bits per character, the padding apart.\<close>

lemma base64_alphabet_length: "length base64_alphabet = 64"
  by (simp add: base64_alphabet_def)



lemma base64_char_mem: "i < 64 \<Longrightarrow> base64_char i \<in> set base64_alphabet"
  unfolding base64_char_def using base64_alphabet_length by simp

lemma base64_alphabet_no_pad:
  "CHR ''='' \<notin> set base64_alphabet" "CHR ''-'' \<notin> set base64_alphabet"
  "CHR ''_'' \<notin> set base64_alphabet"
  by (simp_all add: base64_alphabet_def)

lemma base64_char_not_pad [simp]: "i < 64 \<Longrightarrow> base64_char i \<noteq> CHR ''=''"
  using base64_char_mem base64_alphabet_no_pad(1) by metis

lemma sextet_bound_1: "(n::nat) < 256 \<Longrightarrow> n div 4 < 64"
  by arith

lemma sextet_bound_2: "(n::nat) mod 4 * 16 < 64"
  by arith

lemma sextet_bound_3: "(m::nat) < 256 \<Longrightarrow> (n::nat) mod 4 * 16 + m div 16 < 64"
  by arith

lemma sextet_bound_4: "(m::nat) mod 16 * 4 < 64"
  by arith

lemma sextet_bound_5: "(k::nat) < 256 \<Longrightarrow> (m::nat) mod 16 * 4 + k div 64 < 64"
  by arith

lemma sextet_bound_6: "(k::nat) mod 64 < 64"
  by arith





lemma byte_bound: "unat (a :: byte) < 256"
  using unsigned_less [of a, where ?'a = nat] by simp

lemma sextet_bounds [simp]:
  "unat (a :: byte) div 4 < 64"
  "unat (a :: byte) mod 4 * 16 < 64"
  "unat (a :: byte) mod 4 * 16 + unat (b :: byte) div 16 < 64"
  "unat (b :: byte) mod 16 * 4 < 64"
  "unat (b :: byte) mod 16 * 4 + unat (c :: byte) div 64 < 64"
  "unat (c :: byte) mod 64 < 64"
  using sextet_bound_1 [OF byte_bound [of a]] sextet_bound_2 sextet_bound_3 [OF byte_bound [of b]]
    sextet_bound_4 sextet_bound_5 [OF byte_bound [of c]] sextet_bound_6
  by blast+




lemma strip_Nil [simp]: "strip_trailing_equals [] = []"
  by (simp add: strip_trailing_equals_def)






















subsection \<open>Retrieval of the contract\<close>



end
